theory Spec2Isabelle
  imports Main
begin

section \<open>Response-decoder synthesis of gen-api-models (render.ts)\<close>

text \<open>
  The development embeds \<^verbatim>\<open>src/commands/gen-api-models/render.ts\<close>: the functions
  \<^verbatim>\<open>renderOperation\<close>, \<^verbatim>\<open>renderDecoderCode\<close> and \<^verbatim>\<open>getDecoderForResponse\<close>,
  which turn a parsed operation into TypeScript text. A JavaScript string is modelled as
  a \<^typ>\<open>string\<close>, one \<^typ>\<open>char\<close> standing for one code unit, so that \<^const>\<open>length\<close>
  is the \<^verbatim>\<open>.length\<close> of the source and \<open>s ! 0\<close> its \<^verbatim>\<open>s[0]\<close>. A template literal
  becomes the concatenation of its pieces, line breaks and indentation included.
\<close>

subsection \<open>Data model (types.ts)\<close>

text \<open>\<^verbatim>\<open>ITuple3<string, string, ReadonlyArray<string>>\<close>: status code, type name, header names.\<close>

record response =
  e1 :: string
  e2 :: string
  e3 :: "string list"

text \<open>\<^verbatim>\<open>SupportedMethod\<close> is a union of four string literals; \<open>methodText\<close> gives the string.\<close>

datatype SupportedMethod = get | post | put | delete


text \<open>\<^verbatim>\<open>IParameterInfo\<close>; the field \<^verbatim>\<open>in\<close> is a keyword here, hence \<open>in_\<close>.\<close>

record IParameterInfo =
  name :: string
  type :: string
  in_ :: string
  headerName :: "string option"

text \<open>
  \<^verbatim>\<open>IOperationInfo\<close>. \<^verbatim>\<open>importedTypes\<close> is a \<^verbatim>\<open>ReadonlySet<string>\<close>, kept as the list of
  its members in insertion order.
\<close>

record IOperationInfo =
  "method" :: SupportedMethod
  operationId :: string
  parameters :: "IParameterInfo list"
  responses :: "response list"
  headers :: "string list"
  importedTypes :: "string list"
  path :: string
  consumes :: "string option"
  produces :: "string option"

subsection \<open>The helpers imported from lib/utils\<close>

text \<open>
  \<^verbatim>\<open>capitalize\<close>, \<^verbatim>\<open>uncapitalize\<close>, \<^verbatim>\<open>toUnionOfLiterals\<close> and \<^verbatim>\<open>withGenerics\<close> are
  imported by render.ts from \<^verbatim>\<open>../../lib/utils\<close>, whose source is not at hand. The
  rendering functions take them as a parameter, so every theorem below holds for any
  four string functions.
\<close>

record utils =
  capitalize :: "string \<Rightarrow> string"
  uncapitalize :: "string \<Rightarrow> string"
  toUnionOfLiterals :: "string list \<Rightarrow> string"
  withGenerics :: "string \<Rightarrow> string list \<Rightarrow> string"

subsection \<open>JavaScript primitives\<close>

text \<open>The double quote, as a one-character string.\<close>

definition dq :: string where
  "dq = [CHR 0x22]"

text \<open>\<^verbatim>\<open>Array.prototype.join\<close> on an array of strings.\<close>

fun join :: "string \<Rightarrow> string list \<Rightarrow> string" where
  "join sep [] = []"
| "join sep [x] = x"
| "join sep (x # y # ys) = x @ sep @ join sep (y # ys)"

text \<open>An array index interpolated into a template literal: its decimal digits.\<close>

definition digitChar :: "nat \<Rightarrow> char" where
  "digitChar d = ''0123456789'' ! d"

function numberToString :: "nat \<Rightarrow> string" where
  "numberToString n =
     (if n < 10 then [digitChar n]
      else numberToString (n div 10) @ [digitChar (n mod 10)])"
  by pat_completeness auto
termination
  by (relation "measure id") auto

declare numberToString.simps [simp del]



subsection \<open>getDecoderForResponse\<close>

definition getDecoderForResponse :: "utils \<Rightarrow> response \<Rightarrow> string \<Rightarrow> string" where
  "getDecoderForResponse U r varName =
     (let status = e1 r; type = e2 r; headers = e3 r in
      if type = ''Error''
      then ''r.basicErrorResponseDecoder<'' @ status @ ''>('' @ status @ '')''
      else varName @ ''['' @ status @ ''].name === '' @ dq @ ''undefined'' @ dq @ '' \<newline>''
         @ ''        ? r.constantResponseDecoder<undefined, '' @ status @ '', ''
         @ toUnionOfLiterals U headers @ ''>('' @ status @ '', undefined) \<newline>''
         @ ''        : r.ioResponseDecoder<'' @ status @ '', (typeof '' @ varName @ ''[''
         @ status @ ''])['' @ dq @ ''_A'' @ dq @ ''], (typeof '' @ varName @ ''['' @ status
         @ ''])['' @ dq @ ''_O'' @ dq @ ''], '' @ toUnionOfLiterals U headers @ ''>(''
         @ status @ '', '' @ varName @ ''['' @ status @ ''])'')"

subsection \<open>renderDecoderCode\<close>

text \<open>The predicate of \<^verbatim>\<open>responses.find\<close>: \<^verbatim>\<open>e1.length === 3 && e1[0] === "2"\<close>.\<close>

definition isSuccessCode :: "response \<Rightarrow> bool" where
  "isSuccessCode r = (length (e1 r) = 3 \<and> e1 r ! 0 = CHR ''2'')"

definition typeVarName :: string where
  "typeVarName = ''type''"

definition decoderFunctionName :: "string \<Rightarrow> string" where
  "decoderFunctionName opId = opId @ ''Decoder''"

definition defaultDecoderFunctionName :: "string \<Rightarrow> string" where
  "defaultDecoderFunctionName opId = opId @ ''DefaultDecoder''"

definition decoderName :: "string \<Rightarrow> string" where
  "decoderName statusCode = ''d'' @ statusCode"

text \<open>The callback of the \<^verbatim>\<open>map\<close> that builds \<^verbatim>\<open>decoderDefinitions\<close>, on (index, response).\<close>

definition decoderDefinition :: "utils \<Rightarrow> nat \<times> response \<Rightarrow> string" where
  "decoderDefinition U = (\<lambda>(i, r).
     ''\<newline>    const '' @ decoderName (e1 r) @ '' = (''
     @ getDecoderForResponse U \<lparr>e1 = e1 r, e2 = e2 r, e3 = e3 r\<rparr> typeVarName
     @ '') as r.ResponseDecoder<r.IResponseType<'' @ e1 r @ '', A'' @ numberToString i
     @ '', '' @ toUnionOfLiterals U (e3 r) @ ''>>;\<newline>  '')"

definition decoderDefinitions :: "utils \<Rightarrow> response list \<Rightarrow> string" where
  "decoderDefinitions U rs = join [] (map (decoderDefinition U) (enumerate 0 rs))"

definition composedDecoders :: "response list \<Rightarrow> string" where
  "composedDecoders rs =
     foldl (\<lambda>acc r.
        if acc = [] then decoderName (e1 r)
        else ''r.composeResponseDecoders('' @ acc @ '', '' @ decoderName (e1 r) @ '')'')
       [] rs"

definition responsesTGenerics :: "response list \<Rightarrow> string list" where
  "responsesTGenerics rs =
     foldl (\<lambda>p (i, r). p @ [''A'' @ numberToString i, ''C'' @ numberToString i])
       [] (enumerate 0 rs)"

definition responsesTGenericsWithDefaultTypes :: "response list \<Rightarrow> string list" where
  "responsesTGenericsWithDefaultTypes rs =
     foldl (\<lambda>p (i, r). p @ [''A'' @ numberToString i @ '' = '' @ e2 r,
                              ''C'' @ numberToString i @ '' = '' @ e2 r])
       [] (enumerate 0 rs)"

definition responsesTypeName :: "utils \<Rightarrow> string \<Rightarrow> response list \<Rightarrow> string" where
  "responsesTypeName U opId rs =
     withGenerics U (capitalize U opId @ ''ResponsesT'') (responsesTGenerics rs)"

definition responsesTypeNameWithDefaultTypes :: "utils \<Rightarrow> string \<Rightarrow> response list \<Rightarrow> string" where
  "responsesTypeNameWithDefaultTypes U opId rs =
     withGenerics U (capitalize U opId @ ''ResponsesT'') (responsesTGenericsWithDefaultTypes rs)"

definition decoderDefinitionName :: "utils \<Rightarrow> string \<Rightarrow> response list \<Rightarrow> string" where
  "decoderDefinitionName U opId rs =
     withGenerics U (decoderFunctionName opId) (responsesTGenericsWithDefaultTypes rs)"

definition responsesTContent :: "response list \<Rightarrow> string list" where
  "responsesTContent rs =
     map (\<lambda>(i, r). e1 r @ '': t.Type<A'' @ numberToString i @ '', C'' @ numberToString i @ ''>'')
       (enumerate 0 rs)"

definition responsesT :: "utils \<Rightarrow> string \<Rightarrow> response list \<Rightarrow> string" where
  "responsesT U opId rs =
     ''\<newline>    export type '' @ responsesTypeNameWithDefaultTypes U opId rs @ '' = {\<newline>''
     @ ''      '' @ join '', '' (responsesTContent rs) @ ''\<newline>''
     @ ''    };\<newline>''
     @ ''  ''"

definition responsesSuccessTContent :: "response list \<Rightarrow> response \<Rightarrow> string" where
  "responsesSuccessTContent rs firstSuccessType =
     foldl (\<lambda>p (i, r).
        if e1 r \<noteq> e1 firstSuccessType then p
        else ''t.Type<A'' @ numberToString i @ '', C'' @ numberToString i @ ''>'')
       [] (enumerate 0 rs)"

definition defaultResponsesVarName :: "utils \<Rightarrow> string \<Rightarrow> string" where
  "defaultResponsesVarName U opId = uncapitalize U opId @ ''DefaultResponses''"

definition defaultResponses :: "utils \<Rightarrow> string \<Rightarrow> response list \<Rightarrow> string" where
  "defaultResponses U opId rs =
     ''\<newline>    export const '' @ defaultResponsesVarName U opId @ '' = {\<newline>''
     @ ''      ''
     @ join '', ''
         (map (\<lambda>r. e1 r @ '': '' @ (if e2 r = ''undefined'' then ''t.undefined'' else e2 r)) rs)
     @ ''\<newline>''
     @ ''    };\<newline>''
     @ ''  ''"

definition returnType :: "utils \<Rightarrow> response list \<Rightarrow> string" where
  "returnType U rs =
     ''r.ResponseDecoder<\<newline>''
     @ ''    ''
     @ join ''|''
         (map (\<lambda>(i, r). ''r.IResponseType<'' @ e1 r @ '', A'' @ numberToString i @ '', ''
                          @ toUnionOfLiterals U (e3 r) @ ''>'')
            (enumerate 0 rs))
     @ ''\<newline>''
     @ ''  >''"

definition renderDecoderCode :: "utils \<Rightarrow> IOperationInfo \<Rightarrow> string" where
  "renderDecoderCode U operationInfo =
     (let rs = responses operationInfo; opId = operationId operationInfo in
      case find isSuccessCode rs of
        None \<Rightarrow> []
      | Some firstSuccessType \<Rightarrow>
          ''\<newline>''
          @ ''      '' @ defaultResponses U opId rs @ ''\<newline>''
          @ ''      '' @ responsesT U opId rs @ ''\<newline>''
          @ ''      export function '' @ decoderDefinitionName U opId rs
          @ ''(overrideTypes: Partial<'' @ responsesTypeName U opId rs @ ''> | ''
          @ responsesSuccessTContent rs firstSuccessType @ '' | undefined = {}): ''
          @ returnType U rs @ '' {\<newline>''
          @ ''        const isDecoder = (d: any): d is ''
          @ responsesSuccessTContent rs firstSuccessType @ '' =>\<newline>''
          @ ''          typeof d['' @ dq @ ''_A'' @ dq @ ''] !== '' @ dq @ ''undefined'' @ dq @ '';\<newline>''
          @ ''\<newline>''
          @ ''        const '' @ typeVarName @ '' = {\<newline>''
          @ ''          ...('' @ defaultResponsesVarName U opId @ '' as unknown as ''
          @ responsesTypeName U opId rs @ ''),\<newline>''
          @ ''          ...(isDecoder(overrideTypes) ? { '' @ e1 firstSuccessType
          @ '': overrideTypes } : overrideTypes)\<newline>''
          @ ''        };\<newline>''
          @ ''\<newline>''
          @ ''        '' @ decoderDefinitions U rs @ ''\<newline>''
          @ ''        return '' @ composedDecoders rs @ ''\<newline>''
          @ ''      }\<newline>''
          @ ''\<newline>''
          @ ''      // Decodes the success response with the type defined in the specs\<newline>''
          @ ''      export const '' @ defaultDecoderFunctionName opId @ '' = () => ''
          @ decoderFunctionName opId @ ''();'')"

subsection \<open>renderOperation\<close>








subsection \<open>A concrete instance of the helpers\<close>

text \<open>
  Modelled from the spec: the source of \<^verbatim>\<open>lib/utils\<close> (\<^verbatim>\<open>capitalize\<close>, \<^verbatim>\<open>uncapitalize\<close>,
  \<^verbatim>\<open>toUnionOfLiterals\<close>, \<^verbatim>\<open>withGenerics\<close>) is missing. The spec gives them as pure
  string functions: the case transforms change the first character and are the identity
  on the empty string; \<^verbatim>\<open>toUnionOfLiterals\<close> returns \<^verbatim>\<open>never\<close> on the empty sequence and
  otherwise the union of the string literals in input order, duplicates kept;
  \<^verbatim>\<open>withGenerics\<close> returns the base name when there is no parameter expression and
  otherwise the name applied to the comma-joined expressions in angle brackets. The
  case transforms below act on the letters a to z and A to Z. The instance only serves
  to run the rendering functions on concrete operations; no theorem depends on it.
\<close>

definition upperChar :: "char \<Rightarrow> char" where
  "upperChar c =
     (case map_of (zip ''abcdefghijklmnopqrstuvwxyz'' ''ABCDEFGHIJKLMNOPQRSTUVWXYZ'') c of
        Some u \<Rightarrow> u | None \<Rightarrow> c)"

definition lowerChar :: "char \<Rightarrow> char" where
  "lowerChar c =
     (case map_of (zip ''ABCDEFGHIJKLMNOPQRSTUVWXYZ'' ''abcdefghijklmnopqrstuvwxyz'') c of
        Some l \<Rightarrow> l | None \<Rightarrow> c)"

definition spec_capitalize :: "string \<Rightarrow> string" where
  "spec_capitalize s = (case s of [] \<Rightarrow> [] | c # cs \<Rightarrow> upperChar c # cs)"

definition spec_uncapitalize :: "string \<Rightarrow> string" where
  "spec_uncapitalize s = (case s of [] \<Rightarrow> [] | c # cs \<Rightarrow> lowerChar c # cs)"

definition spec_toUnionOfLiterals :: "string list \<Rightarrow> string" where
  "spec_toUnionOfLiterals names =
     (if names = [] then ''never'' else join '' | '' (map (\<lambda>n. dq @ n @ dq) names))"

definition spec_withGenerics :: "string \<Rightarrow> string list \<Rightarrow> string" where
  "spec_withGenerics baseName paramExprs =
     (if paramExprs = [] then baseName else baseName @ ''<'' @ join '', '' paramExprs @ ''>'')"

definition specUtils :: utils where
  "specUtils = \<lparr>capitalize = spec_capitalize, uncapitalize = spec_uncapitalize,
                 toUnionOfLiterals = spec_toUnionOfLiterals, withGenerics = spec_withGenerics\<rparr>"

subsection \<open>Example operations\<close>

text \<open>A \<^verbatim>\<open>getThing\<close> operation with an optional query parameter, a 200 and a 404 response.\<close>

definition exGetThing :: IOperationInfo where
  "exGetThing =
     \<lparr>method = get, operationId = ''getThing'',
      parameters = [\<lparr>name = ''limit?'', type = ''number'', in_ = ''query'', headerName = None\<rparr>,
                    \<lparr>name = ''id'', type = ''string'', in_ = ''path'', headerName = None\<rparr>],
      responses = [\<lparr>e1 = ''200'', e2 = ''Thing'', e3 = []\<rparr>,
                   \<lparr>e1 = ''404'', e2 = ''undefined'', e3 = []\<rparr>],
      headers = [], importedTypes = [''Thing''], path = ''/things'',
      consumes = None, produces = None\<rparr>"

text \<open>An operation whose only response is a 500 with the generic error body.\<close>

definition exOnlyError :: IOperationInfo where
  "exOnlyError = exGetThing\<lparr>responses := [\<lparr>e1 = ''500'', e2 = ''Error'', e3 = []\<rparr>]\<rparr>"

text \<open>Responses declared as 404, 204, 200: the first 2xx is not the smallest one.\<close>

definition exNoContentFirst :: IOperationInfo where
  "exNoContentFirst =
     exGetThing\<lparr>responses := [\<lparr>e1 = ''404'', e2 = ''Error'', e3 = []\<rparr>,
                              \<lparr>e1 = ''204'', e2 = ''undefined'', e3 = []\<rparr>,
                              \<lparr>e1 = ''200'', e2 = ''Thing'', e3 = []\<rparr>]\<rparr>"

text \<open>A response keyed by the status range \<^verbatim>\<open>2XX\<close>, after a 404.\<close>

definition exRange :: IOperationInfo where
  "exRange =
     exGetThing\<lparr>responses := [\<lparr>e1 = ''404'', e2 = ''Error'', e3 = []\<rparr>,
                              \<lparr>e1 = ''2XX'', e2 = ''Thing'', e3 = []\<rparr>]\<rparr>"

text \<open>Two responses declared with the same status code.\<close>

definition exDuplicate :: IOperationInfo where
  "exDuplicate =
     exGetThing\<lparr>responses := [\<lparr>e1 = ''200'', e2 = ''Thing'', e3 = []\<rparr>,
                              \<lparr>e1 = ''200'', e2 = ''Other'', e3 = []\<rparr>]\<rparr>"


section \<open>Properties\<close>

subsection \<open>Auxiliary facts\<close>


lemma find_None_all: "find P xs = None \<longleftrightarrow> (\<forall>x\<in>set xs. \<not> P x)"
  by (induction xs) auto

lemma find_Some_ex:
  assumes "\<exists>x\<in>set xs. P x"
  shows "\<exists>y. find P xs = Some y"
  using assms find_None_all[of P xs] by (cases "find P xs") auto

lemma find_Some_holds: "find P xs = Some y \<Longrightarrow> P y"
  by (induction xs) (auto split: if_splits)

lemma find_drop_failing:
  assumes "\<not> P r"
  shows "find P (pref @ r # suf) = find P (pref @ suf)"
  using assms by (induction pref) auto

text \<open>Locating a piece \<open>T\<close> of text inside a concatenation, one factor at a time.\<close>

lemma inside_skip:
  assumes "\<exists>pref suf. B = pref @ T suf"
  shows "\<exists>pref suf. A @ B = pref @ T suf"
proof -
  from assms obtain pref suf where "B = pref @ T suf" by blast
  then have "A @ B = (A @ pref) @ T suf" by simp
  then show ?thesis by blast
qed

lemma inside_here: "\<exists>pref suf. T r = pref @ T suf"
proof -
  have "T r = [] @ T r" by simp
  then show ?thesis by blast
qed

lemma renderDecoderCode_empty_iff:
  "renderDecoderCode U operationInfo = [] \<longleftrightarrow>
     find isSuccessCode (responses operationInfo) = None"
  by (cases "find isSuccessCode (responses operationInfo)")
    (simp_all add: renderDecoderCode_def Let_def)

lemma join_Nil_concat: "join [] xs = concat xs"
  by (induction "[] :: string" xs rule: join.induct) simp_all

lemma foldl_enumerate_append:
  "foldl (\<lambda>p (i, r). p @ f i r) acc (enumerate n rs)
     = acc @ concat (map (\<lambda>(i, r). f i r) (enumerate n rs))"
  by (induction rs arbitrary: acc n) simp_all

lemma length_concat_pairs:
  "length (concat (map (\<lambda>(i, r). [f i r, g i r]) xs)) = 2 * length xs"
  by (induction xs) (simp_all add: split_def)

lemma split_two:
  assumes "i < j" and "j < length xs"
  shows "\<exists>a b c. xs = a @ xs ! i # b @ xs ! j # c"
proof -
  have "xs = take j xs @ xs ! j # drop (Suc j) xs"
    using assms(2) by (simp add: id_take_nth_drop)
  moreover have "take j xs = take i (take j xs) @ take j xs ! i # drop (Suc i) (take j xs)"
    using assms by (intro id_take_nth_drop) simp
  moreover have "take j xs ! i = xs ! i"
    using assms by simp
  ultimately have "xs = (take i (take j xs) @ xs ! i # drop (Suc i) (take j xs)) @ xs ! j # drop (Suc j) xs"
    by simp
  then have "xs = take i (take j xs) @ xs ! i # drop (Suc i) (take j xs) @ xs ! j # drop (Suc j) xs"
    by simp
  then show ?thesis by blast
qed

lemma composed_step:
  assumes "acc \<noteq> []"
  shows "foldl (\<lambda>acc r. if acc = [] then decoderName (e1 r)
            else ''r.composeResponseDecoders('' @ acc @ '', '' @ decoderName (e1 r) @ '')'') acc rs
       = foldl (\<lambda>acc r. ''r.composeResponseDecoders('' @ acc @ '', '' @ ''d'' @ e1 r @ '')'') acc rs"
  using assms by (induction rs arbitrary: acc) (simp_all add: decoderName_def)

lemma composedDecoders_Cons:
  "composedDecoders (r0 # rest)
     = foldl (\<lambda>acc r. ''r.composeResponseDecoders('' @ acc @ '', '' @ ''d'' @ e1 r @ '')'')
         (''d'' @ e1 r0) rest"
proof -
  have "composedDecoders (r0 # rest)
      = foldl (\<lambda>acc r. if acc = [] then decoderName (e1 r)
            else ''r.composeResponseDecoders('' @ acc @ '', '' @ decoderName (e1 r) @ '')'')
          (decoderName (e1 r0)) rest"
    by (simp add: composedDecoders_def)
  also have "\<dots> = foldl (\<lambda>acc r. ''r.composeResponseDecoders('' @ acc @ '', '' @ ''d'' @ e1 r @ '')'')
         (decoderName (e1 r0)) rest"
    by (rule composed_step) (simp add: decoderName_def)
  finally show ?thesis by (simp add: decoderName_def)
qed

lemma success_found:
  assumes "\<exists>r\<in>set rs. length (e1 r) = 3 \<and> e1 r ! 0 = CHR ''2''"
  shows "\<exists>fs. find isSuccessCode rs = Some fs"
  using assms find_Some_ex[of rs isSuccessCode] by (auto simp add: isSuccessCode_def)

lemma numberToString_0: "numberToString 0 = ''0''"
  by (simp add: numberToString.simps digitChar_def)

lemma numberToString_1: "numberToString (Suc 0) = ''1''"
  by (simp add: numberToString.simps digitChar_def)


subsection \<open>The first-success lookup\<close>

text \<open>
  C1. When no response has a status code of length 3 whose first character is \<^verbatim>\<open>2\<close>,
  \<^verbatim>\<open>renderDecoderCode\<close> returns the empty string: neither the default-responses map, nor
  the responses type, nor the decoder function is emitted.
\<close>

theorem renderDecoderCode_no_success:
  assumes "\<forall>r\<in>set (responses operationInfo). \<not> (length (e1 r) = 3 \<and> e1 r ! 0 = CHR ''2'')"
  shows "renderDecoderCode U operationInfo = []"
proof -
  from assms have "find isSuccessCode (responses operationInfo) = None"
    by (simp add: find_None_all isSuccessCode_def)
  then show ?thesis
    by (simp add: renderDecoderCode_empty_iff)
qed

theorem renderDecoderCode_no_success_witness:
  "renderDecoderCode specUtils exOnlyError = []"
  by (rule renderDecoderCode_no_success) (simp add: exOnlyError_def)



text \<open>
  C3, as the claim states it, fails: the scan tests the length of the status code and its
  first character only, so the entry \<^verbatim>\<open>2XX\<close>, which is not made of three decimal digits,
  is selected, and the decoder block is emitted for it.
\<close>

theorem success_scan_selects_non_numeric:
  "\<not> set ''2XX'' \<subseteq> set ''0123456789''
   \<and> find isSuccessCode (responses exRange) = Some \<lparr>e1 = ''2XX'', e2 = ''Thing'', e3 = []\<rparr>
   \<and> renderDecoderCode specUtils exRange \<noteq> []"
  by (simp add: renderDecoderCode_empty_iff exRange_def isSuccessCode_def)

text \<open>
  C3, amended. A response whose status code is not three characters long, or does not
  start with \<^verbatim>\<open>2\<close>, is never the entry the scan selects, and it has no part in the
  decision: whether the decoder block is empty is the same with the entry in the list
  and without it. The scan returns a value in every case.
\<close>

theorem success_scan_excludes:
  assumes "length (e1 r) \<noteq> 3 \<or> e1 r ! 0 \<noteq> CHR ''2''"
  shows "find isSuccessCode (responses operationInfo) \<noteq> Some r \<and>
    (renderDecoderCode U (operationInfo\<lparr>responses := pref @ r # suf\<rparr>) = []
       \<longleftrightarrow> renderDecoderCode U (operationInfo\<lparr>responses := pref @ suf\<rparr>) = [])"
proof -
  from assms have n: "\<not> isSuccessCode r"
    by (auto simp add: isSuccessCode_def)
  then have "find isSuccessCode (responses operationInfo) \<noteq> Some r"
    using find_Some_holds[of isSuccessCode "responses operationInfo" r] by blast
  moreover have "find isSuccessCode (pref @ r # suf) = find isSuccessCode (pref @ suf)"
    using n by (rule find_drop_failing)
  ultimately show ?thesis
    by (simp add: renderDecoderCode_empty_iff)
qed

theorem success_scan_excludes_witness:
  "find isSuccessCode (responses exGetThing) \<noteq> Some \<lparr>e1 = ''default'', e2 = ''Error'', e3 = []\<rparr>
   \<and> (renderDecoderCode specUtils
         (exGetThing\<lparr>responses := [] @ \<lparr>e1 = ''default'', e2 = ''Error'', e3 = []\<rparr>
            # [\<lparr>e1 = ''404'', e2 = ''undefined'', e3 = []\<rparr>]\<rparr>) = [])
     = (renderDecoderCode specUtils
         (exGetThing\<lparr>responses := [] @ [\<lparr>e1 = ''404'', e2 = ''undefined'', e3 = []\<rparr>]\<rparr>) = [])"
proof -
  have h: "length (e1 \<lparr>e1 = ''default'', e2 = ''Error'', e3 = []\<rparr>) \<noteq> 3
      \<or> e1 \<lparr>e1 = ''default'', e2 = ''Error'', e3 = []\<rparr> ! 0 \<noteq> CHR ''2''"
    by simp
  show ?thesis
    by (rule success_scan_excludes[OF h])
qed

subsection \<open>The decoder of one response\<close>

text \<open>
  C4. \<^verbatim>\<open>getDecoderForResponse\<close> decides on the type name first. When it is exactly
  \<^verbatim>\<open>Error\<close>, the emitted expression is the call of the error-response decoder on the
  status code and nothing else: the text is the same whatever the helpers, the header
  names and the name of the variable that holds the types are, so it holds no inspection
  of the type at run time. For every other type name, \<^verbatim>\<open>undefined\<close> included, the
  emitted expression is the test of the live type's name at run time with its constant
  and structural branches, and it differs from what the same response would give with
  the type name \<^verbatim>\<open>Error\<close>.
\<close>

theorem getDecoderForResponse_Error:
  "(e2 r = ''Error'' \<longrightarrow>
      getDecoderForResponse U r varName =
        ''r.basicErrorResponseDecoder<'' @ e1 r @ ''>('' @ e1 r @ '')''
      \<and> getDecoderForResponse U' (r\<lparr>e3 := hs\<rparr>) varName' = getDecoderForResponse U r varName)
   \<and> (e2 r \<noteq> ''Error'' \<longrightarrow>
      getDecoderForResponse U r varName =
        varName @ ''['' @ e1 r @ ''].name === '' @ dq @ ''undefined'' @ dq @ '' \<newline>''
        @ ''        ? r.constantResponseDecoder<undefined, '' @ e1 r @ '', ''
        @ toUnionOfLiterals U (e3 r) @ ''>('' @ e1 r @ '', undefined) \<newline>''
        @ ''        : r.ioResponseDecoder<'' @ e1 r @ '', (typeof '' @ varName @ ''['' @ e1 r
        @ ''])['' @ dq @ ''_A'' @ dq @ ''], (typeof '' @ varName @ ''['' @ e1 r
        @ ''])['' @ dq @ ''_O'' @ dq @ ''], '' @ toUnionOfLiterals U (e3 r) @ ''>(''
        @ e1 r @ '', '' @ varName @ ''['' @ e1 r @ ''])''
      \<and> getDecoderForResponse U (r\<lparr>e2 := ''Error''\<rparr>) varName \<noteq> getDecoderForResponse U r varName)"
proof (intro conjI impI)
  assume e: "e2 r = ''Error''"
  then show "getDecoderForResponse U r varName =
        ''r.basicErrorResponseDecoder<'' @ e1 r @ ''>('' @ e1 r @ '')''"
    by (simp add: getDecoderForResponse_def Let_def)
  from e show "getDecoderForResponse U' (r\<lparr>e3 := hs\<rparr>) varName' = getDecoderForResponse U r varName"
    by (simp add: getDecoderForResponse_def Let_def)
next
  assume n: "e2 r \<noteq> ''Error''"
  then show "getDecoderForResponse U r varName =
        varName @ ''['' @ e1 r @ ''].name === '' @ dq @ ''undefined'' @ dq @ '' \<newline>''
        @ ''        ? r.constantResponseDecoder<undefined, '' @ e1 r @ '', ''
        @ toUnionOfLiterals U (e3 r) @ ''>('' @ e1 r @ '', undefined) \<newline>''
        @ ''        : r.ioResponseDecoder<'' @ e1 r @ '', (typeof '' @ varName @ ''['' @ e1 r
        @ ''])['' @ dq @ ''_A'' @ dq @ ''], (typeof '' @ varName @ ''['' @ e1 r
        @ ''])['' @ dq @ ''_O'' @ dq @ ''], '' @ toUnionOfLiterals U (e3 r) @ ''>(''
        @ e1 r @ '', '' @ varName @ ''['' @ e1 r @ ''])''"
    by (simp add: getDecoderForResponse_def Let_def)
  show "getDecoderForResponse U (r\<lparr>e2 := ''Error''\<rparr>) varName \<noteq> getDecoderForResponse U r varName"
  proof
    assume "getDecoderForResponse U (r\<lparr>e2 := ''Error''\<rparr>) varName = getDecoderForResponse U r varName"
    then have "length (getDecoderForResponse U (r\<lparr>e2 := ''Error''\<rparr>) varName)
        = length (getDecoderForResponse U r varName)"
      by simp
    with n show False
      by (simp add: getDecoderForResponse_def Let_def dq_def)
  qed
qed

theorem getDecoderForResponse_Error_witness:
  "getDecoderForResponse specUtils \<lparr>e1 = ''500'', e2 = ''Error'', e3 = [''Retry-After'']\<rparr> ''type''
     = ''r.basicErrorResponseDecoder<500>(500)''
   \<and> getDecoderForResponse specUtils \<lparr>e1 = ''200'', e2 = ''error'', e3 = []\<rparr> ''type''
     = ''type[200].name === '' @ dq @ ''undefined'' @ dq @ '' \<newline>''
       @ ''        ? r.constantResponseDecoder<undefined, 200, never>(200, undefined) \<newline>''
       @ ''        : r.ioResponseDecoder<200, (typeof type[200])['' @ dq @ ''_A'' @ dq
       @ ''], (typeof type[200])['' @ dq @ ''_O'' @ dq @ ''], never>(200, type[200])''"
  using getDecoderForResponse_Error[of "\<lparr>e1 = ''500'', e2 = ''Error'', e3 = [''Retry-After'']\<rparr>" specUtils "''type''"]
    getDecoderForResponse_Error[of "\<lparr>e1 = ''200'', e2 = ''error'', e3 = []\<rparr>" specUtils "''type''"]
  by (simp add: specUtils_def spec_toUnionOfLiterals_def)

subsection \<open>The declarations of the decoder block\<close>

text \<open>
  C5. For an operation with a qualifying success response, the default-responses map
  of the decoder block has one entry per response, in input order: the status code, a
  colon and the declared type name, where the type name \<^verbatim>\<open>undefined\<close> is written
  \<^verbatim>\<open>t.undefined\<close>.
\<close>

theorem defaultResponses_entries:
  assumes "\<exists>r\<in>set (responses operationInfo). length (e1 r) = 3 \<and> e1 r ! 0 = CHR ''2''"
  shows "\<exists>before after. renderDecoderCode U operationInfo =
         before @ ''\<newline>    export const '' @ uncapitalize U (operationId operationInfo)
         @ ''DefaultResponses = {\<newline>      ''
         @ join '', ''
             (map (\<lambda>r. e1 r @ '': '' @ (if e2 r = ''undefined'' then ''t.undefined'' else e2 r))
                (responses operationInfo))
         @ ''\<newline>    };\<newline>'' @ after"
proof -
  define entries where "entries =
    map (\<lambda>r. e1 r @ '': '' @ (if e2 r = ''undefined'' then ''t.undefined'' else e2 r))
      (responses operationInfo)"
  from assms obtain fs where f: "find isSuccessCode (responses operationInfo) = Some fs"
    using success_found by blast
  have "\<exists>before after. renderDecoderCode U operationInfo =
      before @ ''\<newline>    export const '' @ uncapitalize U (operationId operationInfo)
        @ ''DefaultResponses'' @ '' = {\<newline>'' @ ''      '' @ join '', '' entries
        @ ''\<newline>'' @ ''    };\<newline>'' @ after"
    unfolding renderDecoderCode_def Let_def f option.case defaultResponses_def
      defaultResponsesVarName_def entries_def append_assoc
    by (rule inside_here | rule inside_skip)+
  then obtain before after where "renderDecoderCode U operationInfo =
      before @ ''\<newline>    export const '' @ uncapitalize U (operationId operationInfo)
        @ ''DefaultResponses'' @ '' = {\<newline>'' @ ''      '' @ join '', '' entries
        @ ''\<newline>'' @ ''    };\<newline>'' @ after"
    by blast
  then have "renderDecoderCode U operationInfo =
         before @ ''\<newline>    export const '' @ uncapitalize U (operationId operationInfo)
         @ ''DefaultResponses = {\<newline>      '' @ join '', '' entries @ ''\<newline>    };\<newline>'' @ after"
    by simp
  then show ?thesis
    unfolding entries_def by blast
qed

theorem defaultResponses_entries_witness:
  "\<exists>before after. renderDecoderCode specUtils exGetThing =
     before @ ''\<newline>    export const getThingDefaultResponses = {\<newline>      200: Thing, 404: t.undefined\<newline>    };\<newline>''
     @ after"
proof -
  have h: "\<exists>r\<in>set (responses exGetThing). length (e1 r) = 3 \<and> e1 r ! 0 = CHR ''2''"
    by (simp add: exGetThing_def)
  have u: "uncapitalize specUtils (operationId exGetThing) = ''getThing''"
    by (simp add: exGetThing_def specUtils_def spec_uncapitalize_def lowerChar_def)
  show ?thesis
    using defaultResponses_entries[OF h, of specUtils] unfolding u by (simp add: exGetThing_def)
qed

text \<open>
  C6. For an operation with a qualifying success response and \<open>n\<close> responses, the
  responses type is declared over \<open>2 * n\<close> type parameters handed to \<^verbatim>\<open>withGenerics\<close>:
  for the response of index \<open>i\<close>, in input order, \<^verbatim>\<open>Ai\<close> and then \<^verbatim>\<open>Ci\<close>, each with
  the declared type name of that response, unchanged, as its default. Its body has one
  field per response, named by the status code, of type \<^verbatim>\<open>t.Type<Ai, Ci>\<close>.
\<close>

theorem responsesT_generics:
  assumes "\<exists>r\<in>set (responses operationInfo). length (e1 r) = 3 \<and> e1 r ! 0 = CHR ''2''"
  shows "responsesTGenericsWithDefaultTypes (responses operationInfo) =
       concat (map (\<lambda>(i, r). [''A'' @ numberToString i @ '' = '' @ e2 r,
                                ''C'' @ numberToString i @ '' = '' @ e2 r])
                 (enumerate 0 (responses operationInfo)))
     \<and> length (responsesTGenericsWithDefaultTypes (responses operationInfo))
         = 2 * length (responses operationInfo)
     \<and> (\<exists>before after. renderDecoderCode U operationInfo =
          before @ ''\<newline>    export type ''
          @ withGenerics U (capitalize U (operationId operationInfo) @ ''ResponsesT'')
              (responsesTGenericsWithDefaultTypes (responses operationInfo))
          @ '' = {\<newline>      ''
          @ join '', ''
              (map (\<lambda>(i, r). e1 r @ '': t.Type<A'' @ numberToString i @ '', C''
                               @ numberToString i @ ''>'')
                 (enumerate 0 (responses operationInfo)))
          @ ''\<newline>    };\<newline>'' @ after)"
proof (intro conjI)
  show g: "responsesTGenericsWithDefaultTypes (responses operationInfo) =
       concat (map (\<lambda>(i, r). [''A'' @ numberToString i @ '' = '' @ e2 r,
                                ''C'' @ numberToString i @ '' = '' @ e2 r])
                 (enumerate 0 (responses operationInfo)))"
    unfolding responsesTGenericsWithDefaultTypes_def
    by (simp only: foldl_enumerate_append append_Nil)
  show "length (responsesTGenericsWithDefaultTypes (responses operationInfo))
         = 2 * length (responses operationInfo)"
    unfolding g by (simp only: length_concat_pairs length_enumerate)
  from assms obtain fs where f: "find isSuccessCode (responses operationInfo) = Some fs"
    using success_found by blast
  define gens where "gens = responsesTGenericsWithDefaultTypes (responses operationInfo)"
  define fields where "fields = join '', ''
              (map (\<lambda>(i, r). e1 r @ '': t.Type<A'' @ numberToString i @ '', C''
                               @ numberToString i @ ''>'')
                 (enumerate 0 (responses operationInfo)))"
  have "\<exists>before after. renderDecoderCode U operationInfo =
          before @ ''\<newline>    export type ''
          @ withGenerics U (capitalize U (operationId operationInfo) @ ''ResponsesT'') gens
          @ '' = {\<newline>'' @ ''      '' @ fields @ ''\<newline>'' @ ''    };\<newline>'' @ after"
    unfolding renderDecoderCode_def Let_def f option.case responsesT_def
      responsesTypeNameWithDefaultTypes_def responsesTContent_def gens_def fields_def append_assoc
    by (rule inside_here | rule inside_skip)+
  then obtain before after where "renderDecoderCode U operationInfo =
          before @ ''\<newline>    export type ''
          @ withGenerics U (capitalize U (operationId operationInfo) @ ''ResponsesT'') gens
          @ '' = {\<newline>'' @ ''      '' @ fields @ ''\<newline>'' @ ''    };\<newline>'' @ after"
    by blast
  then have "renderDecoderCode U operationInfo =
          before @ ''\<newline>    export type ''
          @ withGenerics U (capitalize U (operationId operationInfo) @ ''ResponsesT'') gens
          @ '' = {\<newline>      '' @ fields @ ''\<newline>    };\<newline>'' @ after"
    by simp
  then show "\<exists>before after. renderDecoderCode U operationInfo =
          before @ ''\<newline>    export type ''
          @ withGenerics U (capitalize U (operationId operationInfo) @ ''ResponsesT'')
              (responsesTGenericsWithDefaultTypes (responses operationInfo))
          @ '' = {\<newline>      ''
          @ join '', ''
              (map (\<lambda>(i, r). e1 r @ '': t.Type<A'' @ numberToString i @ '', C''
                               @ numberToString i @ ''>'')
                 (enumerate 0 (responses operationInfo)))
          @ ''\<newline>    };\<newline>'' @ after"
    unfolding gens_def fields_def by blast
qed

theorem responsesT_generics_witness:
  "responsesTGenericsWithDefaultTypes (responses exGetThing) =
     [''A0 = Thing'', ''C0 = Thing'', ''A1 = undefined'', ''C1 = undefined'']
   \<and> (\<exists>before after. renderDecoderCode specUtils exGetThing =
        before @ ''\<newline>    export type GetThingResponsesT<A0 = Thing, C0 = Thing, A1 = undefined, C1 = undefined> = {\<newline>      200: t.Type<A0, C0>, 404: t.Type<A1, C1>\<newline>    };\<newline>''
        @ after)"
proof -
  have h: "\<exists>r\<in>set (responses exGetThing). length (e1 r) = 3 \<and> e1 r ! 0 = CHR ''2''"
    by (simp add: exGetThing_def)
  have g: "concat (map (\<lambda>(i, r). [''A'' @ numberToString i @ '' = '' @ e2 r,
                                ''C'' @ numberToString i @ '' = '' @ e2 r])
                 (enumerate 0 (responses exGetThing)))
      = [''A0 = Thing'', ''C0 = Thing'', ''A1 = undefined'', ''C1 = undefined'']"
    by (simp add: exGetThing_def numberToString_0 numberToString_1)
  have c: "capitalize specUtils (operationId exGetThing) = ''GetThing''"
    by (simp add: exGetThing_def specUtils_def spec_capitalize_def upperChar_def)
  have w: "withGenerics specUtils ''GetThingResponsesT''
        [''A0 = Thing'', ''C0 = Thing'', ''A1 = undefined'', ''C1 = undefined'']
      = ''GetThingResponsesT<A0 = Thing, C0 = Thing, A1 = undefined, C1 = undefined>''"
    by (simp add: specUtils_def spec_withGenerics_def)
  have fl: "join '', '' (map (\<lambda>(i, r). e1 r @ '': t.Type<A'' @ numberToString i @ '', C''
                               @ numberToString i @ ''>'')
                 (enumerate 0 (responses exGetThing)))
      = ''200: t.Type<A0, C0>, 404: t.Type<A1, C1>''"
    by (simp add: exGetThing_def numberToString_0 numberToString_1)
  from responsesT_generics[OF h, of specUtils]
  have 1: "responsesTGenericsWithDefaultTypes (responses exGetThing) =
     [''A0 = Thing'', ''C0 = Thing'', ''A1 = undefined'', ''C1 = undefined'']"
    and 2: "\<exists>before after. renderDecoderCode specUtils exGetThing =
          before @ ''\<newline>    export type ''
          @ withGenerics specUtils (capitalize specUtils (operationId exGetThing) @ ''ResponsesT'')
              (responsesTGenericsWithDefaultTypes (responses exGetThing))
          @ '' = {\<newline>      ''
          @ join '', ''
              (map (\<lambda>(i, r). e1 r @ '': t.Type<A'' @ numberToString i @ '', C''
                               @ numberToString i @ ''>'')
                 (enumerate 0 (responses exGetThing)))
          @ ''\<newline>    };\<newline>'' @ after"
    unfolding g by blast+
  from 2 have "\<exists>before after. renderDecoderCode specUtils exGetThing =
        before @ ''\<newline>    export type GetThingResponsesT<A0 = Thing, C0 = Thing, A1 = undefined, C1 = undefined> = {\<newline>      200: t.Type<A0, C0>, 404: t.Type<A1, C1>\<newline>    };\<newline>''
        @ after"
    unfolding 1 c fl by (simp add: w)
  with 1 show ?thesis by blast
qed

text \<open>
  C7. For a non-empty list of responses the composed decoder is the fold, from left to
  right and in input order, of the composition call over the decoder names, starting from
  the name of the first response's decoder: the chain of the first \<open>k + 2\<close> responses is
  the composition call on the chain of the first \<open>k + 1\<close> and, as second argument, the
  decoder of the next response. The decoder function returns that chain.
\<close>

theorem composedDecoders_input_order:
  assumes "responses operationInfo = r0 # rest"
  shows "composedDecoders (responses operationInfo)
       = foldl (\<lambda>acc r. ''r.composeResponseDecoders('' @ acc @ '', '' @ ''d'' @ e1 r @ '')'')
           (''d'' @ e1 r0) rest
     \<and> (\<forall>k<length rest. composedDecoders (take (k + 2) (responses operationInfo))
           = ''r.composeResponseDecoders('' @ composedDecoders (take (k + 1) (responses operationInfo))
             @ '', d'' @ e1 (rest ! k) @ '')'')
     \<and> ((\<exists>r\<in>set (responses operationInfo). length (e1 r) = 3 \<and> e1 r ! 0 = CHR ''2'') \<longrightarrow>
          (\<exists>before after. renderDecoderCode U operationInfo =
             before @ ''        return '' @ composedDecoders (responses operationInfo)
             @ ''\<newline>      }\<newline>'' @ after))"
proof (intro conjI allI impI)
  show "composedDecoders (responses operationInfo)
       = foldl (\<lambda>acc r. ''r.composeResponseDecoders('' @ acc @ '', '' @ ''d'' @ e1 r @ '')'')
           (''d'' @ e1 r0) rest"
    by (simp only: assms composedDecoders_Cons)
next
  fix k assume k: "k < length rest"
  have t2: "take (k + 2) (responses operationInfo) = r0 # take k rest @ [rest ! k]"
    using k by (simp add: assms take_Suc_conv_app_nth)
  have t1: "take (k + 1) (responses operationInfo) = r0 # take k rest"
    by (simp add: assms)
  show "composedDecoders (take (k + 2) (responses operationInfo))
           = ''r.composeResponseDecoders('' @ composedDecoders (take (k + 1) (responses operationInfo))
             @ '', d'' @ e1 (rest ! k) @ '')''"
    unfolding t1 t2 composedDecoders_Cons by simp
next
  assume "\<exists>r\<in>set (responses operationInfo). length (e1 r) = 3 \<and> e1 r ! 0 = CHR ''2''"
  then obtain fs where f: "find isSuccessCode (responses operationInfo) = Some fs"
    using success_found by blast
  have "\<exists>before after. renderDecoderCode U operationInfo =
             before @ ''        return '' @ composedDecoders (responses operationInfo)
             @ ''\<newline>'' @ ''      }\<newline>'' @ after"
    unfolding renderDecoderCode_def Let_def f option.case
    by (rule inside_here | rule inside_skip)+
  then obtain before after where "renderDecoderCode U operationInfo =
             before @ ''        return '' @ composedDecoders (responses operationInfo)
             @ ''\<newline>'' @ ''      }\<newline>'' @ after"
    by blast
  then have "renderDecoderCode U operationInfo =
             before @ ''        return '' @ composedDecoders (responses operationInfo)
             @ ''\<newline>      }\<newline>'' @ after"
    by simp
  then show "\<exists>before after. renderDecoderCode U operationInfo =
             before @ ''        return '' @ composedDecoders (responses operationInfo)
             @ ''\<newline>      }\<newline>'' @ after"
    by blast
qed

theorem composedDecoders_input_order_witness:
  "composedDecoders (responses exNoContentFirst)
     = ''r.composeResponseDecoders(r.composeResponseDecoders(d404, d204), d200)''
   \<and> (\<exists>before after. renderDecoderCode specUtils exNoContentFirst =
        before @ ''        return r.composeResponseDecoders(r.composeResponseDecoders(d404, d204), d200)\<newline>      }\<newline>''
        @ after)"
proof -
  have h: "responses exNoContentFirst = \<lparr>e1 = ''404'', e2 = ''Error'', e3 = []\<rparr>
      # [\<lparr>e1 = ''204'', e2 = ''undefined'', e3 = []\<rparr>, \<lparr>e1 = ''200'', e2 = ''Thing'', e3 = []\<rparr>]"
    by (simp add: exNoContentFirst_def)
  have s: "\<exists>r\<in>set (responses exNoContentFirst). length (e1 r) = 3 \<and> e1 r ! 0 = CHR ''2''"
    by (simp add: exNoContentFirst_def)
  from composedDecoders_input_order[OF h, of specUtils]
  have 1: "composedDecoders (responses exNoContentFirst)
     = ''r.composeResponseDecoders(r.composeResponseDecoders(d404, d204), d200)''"
    by simp
  from composedDecoders_input_order[OF h, of specUtils] s
  have "\<exists>before after. renderDecoderCode specUtils exNoContentFirst =
        before @ ''        return '' @ composedDecoders (responses exNoContentFirst)
        @ ''\<newline>      }\<newline>'' @ after"
    by blast
  then have "\<exists>before after. renderDecoderCode specUtils exNoContentFirst =
        before @ ''        return r.composeResponseDecoders(r.composeResponseDecoders(d404, d204), d200)\<newline>      }\<newline>''
        @ after"
    unfolding 1 by simp
  with 1 show ?thesis by blast
qed

subsection \<open>The request type\<close>




subsection \<open>Duplicate status codes\<close>

text \<open>
  C10. The name of a decoder binding is \<^verbatim>\<open>d\<close> followed by the status code. When two
  responses, of indices \<open>i < j\<close>, have the same status code and a success response
  exists, the decoder block holds both their declarations, and both declare the same
  constant name: nothing is rejected or merged.
\<close>

theorem duplicate_status_duplicate_const:
  assumes "\<exists>r\<in>set (responses operationInfo). length (e1 r) = 3 \<and> e1 r ! 0 = CHR ''2''"
    and "i < j" and "j < length (responses operationInfo)"
    and "e1 (responses operationInfo ! i) = e1 (responses operationInfo ! j)"
  shows "\<exists>before between after ti tj.
     renderDecoderCode U operationInfo =
       before @ decoderDefinition U (i, responses operationInfo ! i) @ between
       @ decoderDefinition U (j, responses operationInfo ! j) @ after
     \<and> decoderDefinition U (i, responses operationInfo ! i) =
         ''\<newline>    const d'' @ e1 (responses operationInfo ! i) @ '' = ('' @ ti
     \<and> decoderDefinition U (j, responses operationInfo ! j) =
         ''\<newline>    const d'' @ e1 (responses operationInfo ! i) @ '' = ('' @ tj"
proof -
  define rs where "rs = responses operationInfo"
  define E where "E = enumerate 0 rs"
  from assms(1) obtain fs where f: "find isSuccessCode (responses operationInfo) = Some fs"
    using success_found by blast
  have "\<exists>p s. renderDecoderCode U operationInfo = p @ decoderDefinitions U rs @ s"
    unfolding renderDecoderCode_def Let_def f option.case rs_def
    by (rule inside_here | rule inside_skip)+
  then obtain p s where out: "renderDecoderCode U operationInfo = p @ decoderDefinitions U rs @ s"
    by blast
  have "i < j" and "j < length E"
    using assms by (simp_all add: E_def rs_def)
  then obtain a b c where "E = a @ E ! i # b @ E ! j # c"
    using split_two by blast
  moreover have "E ! i = (i, rs ! i)" and "E ! j = (j, rs ! j)"
    using assms by (simp_all add: E_def rs_def nth_enumerate_eq)
  ultimately have E: "E = a @ (i, rs ! i) # b @ (j, rs ! j) # c"
    by simp
  have "decoderDefinitions U rs = concat (map (decoderDefinition U) E)"
    by (simp add: decoderDefinitions_def join_Nil_concat E_def)
  also have "\<dots> = concat (map (decoderDefinition U) a) @ decoderDefinition U (i, rs ! i)
      @ concat (map (decoderDefinition U) b) @ decoderDefinition U (j, rs ! j)
      @ concat (map (decoderDefinition U) c)"
    by (subst E) simp
  finally have "renderDecoderCode U operationInfo =
      (p @ concat (map (decoderDefinition U) a)) @ decoderDefinition U (i, rs ! i)
      @ concat (map (decoderDefinition U) b) @ decoderDefinition U (j, rs ! j)
      @ (concat (map (decoderDefinition U) c) @ s)"
    using out by simp
  moreover have "\<exists>ti. decoderDefinition U (i, rs ! i) = ''\<newline>    const d'' @ e1 (rs ! i) @ '' = ('' @ ti"
    by (simp add: decoderDefinition_def decoderName_def)
  moreover have "\<exists>tj. decoderDefinition U (j, rs ! j) = ''\<newline>    const d'' @ e1 (rs ! i) @ '' = ('' @ tj"
    using assms(4) by (simp add: decoderDefinition_def decoderName_def rs_def)
  ultimately show ?thesis
    unfolding rs_def by blast
qed

theorem duplicate_status_duplicate_const_witness:
  "\<exists>before between after ti tj.
     renderDecoderCode specUtils exDuplicate =
       before @ (''\<newline>    const d200 = ('' @ ti) @ between @ (''\<newline>    const d200 = ('' @ tj) @ after"
proof -
  have h: "\<exists>r\<in>set (responses exDuplicate). length (e1 r) = 3 \<and> e1 r ! 0 = CHR ''2''"
    by (simp add: exDuplicate_def)
  have "\<exists>before between after ti tj.
     renderDecoderCode specUtils exDuplicate =
       before @ decoderDefinition specUtils (0, responses exDuplicate ! 0) @ between
       @ decoderDefinition specUtils (1, responses exDuplicate ! 1) @ after
     \<and> decoderDefinition specUtils (0, responses exDuplicate ! 0) =
         ''\<newline>    const d'' @ e1 (responses exDuplicate ! 0) @ '' = ('' @ ti
     \<and> decoderDefinition specUtils (1, responses exDuplicate ! 1) =
         ''\<newline>    const d'' @ e1 (responses exDuplicate ! 0) @ '' = ('' @ tj"
    by (rule duplicate_status_duplicate_const[OF h]) (simp_all add: exDuplicate_def)
  then obtain before between after ti tj where
    o: "renderDecoderCode specUtils exDuplicate =
       before @ decoderDefinition specUtils (0, responses exDuplicate ! 0) @ between
       @ decoderDefinition specUtils (1, responses exDuplicate ! 1) @ after"
    and i: "decoderDefinition specUtils (0, responses exDuplicate ! 0) =
         ''\<newline>    const d'' @ e1 (responses exDuplicate ! 0) @ '' = ('' @ ti"
    and j: "decoderDefinition specUtils (1, responses exDuplicate ! 1) =
         ''\<newline>    const d'' @ e1 (responses exDuplicate ! 0) @ '' = ('' @ tj"
    by blast
  have e: "e1 (responses exDuplicate ! 0) = ''200''"
    by (simp add: exDuplicate_def)
  have "renderDecoderCode specUtils exDuplicate =
       before @ (''\<newline>    const d200 = ('' @ ti) @ between @ (''\<newline>    const d200 = ('' @ tj) @ after"
    unfolding o i j e by simp
  then show ?thesis by blast
qed

end
